theory Spec2Isabelle
  imports Main "HOL-Library.Sublist"
begin

section \<open>Values\<close>

text \<open>
  The values that \<open>response.json()\<close> hands back and \<open>json.dumps\<close> takes: Python's
  \<open>None\<close>, \<open>bool\<close>, \<open>int\<close>, \<open>str\<close>, \<open>list\<close> and \<open>dict\<close>. A dict is
  an association list in insertion order. Numbers are the integers (floating point is
  outside the embedding) and a character is a code point below 256.
\<close>

datatype json =
    JNull
  | JBool bool
  | JInt int
  | JStr string
  | JList "json list"
  | JDict "(string \<times> json) list"

text \<open>
  Python's \<open>str(n)\<close> on an integer: decimal digits, a leading minus sign. The
  interpreter's bound on the length of such a conversion (4300 digits unless it is
  configured otherwise) is not part of the model.
\<close>

definition digit_char :: "nat \<Rightarrow> char" where
  "digit_char d = ''0123456789abcdef'' ! (d mod 16)"

fun str_nat :: "nat \<Rightarrow> string" where
  "str_nat n = (if n < 10 then [digit_char n] else str_nat (n div 10) @ [digit_char (n mod 10)])"

declare str_nat.simps [simp del]

definition str_int :: "int \<Rightarrow> string" where
  "str_int i = (if i < 0 then CHR ''-'' # str_nat (nat (- i)) else str_nat (nat i))"

text \<open>
  \<open>json.dumps\<close> with its defaults (\<open>ensure_ascii=True\<close>, separators \<open>", "\<close> and
  \<open>": "\<close>). A string is quoted; the quote, the backslash and the five short control
  escapes are written with a backslash, a character from the space to the tilde stands for
  itself, and any other becomes \<open>\u00XX\<close> in lower-case hexadecimal.
\<close>

definition escape_char :: "char \<Rightarrow> string" where
  "escape_char c =
     (if c = CHR 0x5C then [CHR 0x5C, CHR 0x5C]
      else if c = CHR 0x22 then [CHR 0x5C, CHR 0x22]
      else if c = CHR 0x08 then [CHR 0x5C, CHR ''b'']
      else if c = CHR 0x0C then [CHR 0x5C, CHR ''f'']
      else if c = CHR 0x0A then [CHR 0x5C, CHR ''n'']
      else if c = CHR 0x0D then [CHR 0x5C, CHR ''r'']
      else if c = CHR 0x09 then [CHR 0x5C, CHR ''t'']
      else if 0x20 \<le> (of_char c :: nat) \<and> (of_char c :: nat) \<le> 0x7E then [c]
      else [CHR 0x5C, CHR ''u'', CHR ''0'', CHR ''0'',
            digit_char (of_char c div 16), digit_char (of_char c mod 16)])"

definition encode_basestring_ascii :: "string \<Rightarrow> string" where
  "encode_basestring_ascii s = CHR 0x22 # concat (map escape_char s) @ [CHR 0x22]"

fun join :: "string \<Rightarrow> string list \<Rightarrow> string" where
  "join sep [] = []"
| "join sep [x] = x"
| "join sep (x # y # ys) = x @ sep @ join sep (y # ys)"

fun json_dumps :: "json \<Rightarrow> string" where
  "json_dumps JNull = ''null''"
| "json_dumps (JBool b) = (if b then ''true'' else ''false'')"
| "json_dumps (JInt i) = str_int i"
| "json_dumps (JStr s) = encode_basestring_ascii s"
| "json_dumps (JList xs) = ''['' @ join '', '' (map json_dumps xs) @ '']''"
| "json_dumps (JDict kvs) =
     ''{'' @ join '', '' (map (\<lambda>(k, v). encode_basestring_ascii k @ '': '' @ json_dumps v) kvs) @ ''}''"

declare json_dumps.simps [simp del]

text \<open>\<open>d[k] = v\<close> on a dict: an existing key keeps its place, a new one goes last.\<close>

fun dict_setitem :: "('k \<times> 'v) list \<Rightarrow> 'k \<Rightarrow> 'v \<Rightarrow> ('k \<times> 'v) list" where
  "dict_setitem [] k v = [(k, v)]"
| "dict_setitem ((k', v') # d) k v =
     (if k' = k then (k, v) # d else (k', v') # dict_setitem d k v)"

text \<open>
  Python's truth test on a value that is \<open>None\<close> or a string: \<open>if x:\<close> holds for a
  string that is not empty, and \<open>not x\<close> for \<open>None\<close> and for the empty string.
\<close>

definition truthy :: "string option \<Rightarrow> bool" where
  "truthy x = (case x of None \<Rightarrow> False | Some s \<Rightarrow> s \<noteq> [])"

definition py_not :: "string option \<Rightarrow> bool" where
  "py_not x = (case x of None \<Rightarrow> True | Some s \<Rightarrow> s = [])"

section \<open>Decoding\<close>

text \<open>
  \<open>json.loads\<close>, after the scanner and the decoder of Python's \<open>json\<close> module:
  \<open>scanstring\<close> reads a string from behind its opening quote, \<open>scan_number\<close> reads an
  integer, \<open>scan_once\<close> reads one value, \<open>JSONArray\<close> and \<open>JSONObject\<close> read the
  elements of a list and the members of a dict from behind the opening bracket, and
  \<open>json_loads\<close> wants nothing but white space around the one value. Each function
  answers the value and the text left over, or \<open>None\<close> where Python raises. A text that
  holds a floating-point number or an escape \<open>\uXXXX\<close> above 255 is outside the
  embedding and is answered by \<open>None\<close> as well. The first argument of \<open>scan_once\<close>
  bounds the depth of the recursion; \<open>json_loads\<close> gives it the length of the text,
  which is enough for every text that \<open>json_dumps\<close> writes (lemma \<open>loads_dumps\<close>).
\<close>

definition is_ws :: "char \<Rightarrow> bool" where
  "is_ws c = (c = CHR 0x20 \<or> c = CHR 0x09 \<or> c = CHR 0x0A \<or> c = CHR 0x0D)"

definition skip_ws :: "string \<Rightarrow> string" where
  "skip_ws s = dropWhile is_ws s"

definition is_digit :: "char \<Rightarrow> bool" where
  "is_digit c = (48 \<le> (of_char c :: nat) \<and> (of_char c :: nat) \<le> 57)"

definition digit_val :: "char \<Rightarrow> nat" where
  "digit_val c = of_char c - 48"

definition nat_of_digits :: "string \<Rightarrow> nat" where
  "nat_of_digits ds = foldl (\<lambda>n c. 10 * n + digit_val c) 0 ds"

definition hex_val :: "char \<Rightarrow> nat option" where
  "hex_val c =
     (let n = (of_char c :: nat) in
      if 48 \<le> n \<and> n \<le> 57 then Some (n - 48)
      else if 97 \<le> n \<and> n \<le> 102 then Some (n - 87)
      else if 65 \<le> n \<and> n \<le> 70 then Some (n - 55)
      else None)"

definition unescape :: "char \<Rightarrow> char option" where
  "unescape e =
     (if e = CHR 0x22 then Some (CHR 0x22)
      else if e = CHR 0x5C then Some (CHR 0x5C)
      else if e = CHR ''/'' then Some (CHR ''/'')
      else if e = CHR ''b'' then Some (CHR 0x08)
      else if e = CHR ''f'' then Some (CHR 0x0C)
      else if e = CHR ''n'' then Some (CHR 0x0A)
      else if e = CHR ''r'' then Some (CHR 0x0D)
      else if e = CHR ''t'' then Some (CHR 0x09)
      else None)"

definition cons_result :: "'a \<Rightarrow> ('a list \<times> string) option \<Rightarrow> ('a list \<times> string) option" where
  "cons_result x r = (case r of None \<Rightarrow> None | Some (xs, rest) \<Rightarrow> Some (x # xs, rest))"

fun scanstring :: "string \<Rightarrow> (string \<times> string) option" where
  "scanstring [] = None"
| "scanstring (c # cs) =
     (if c = CHR 0x22 then Some ([], cs)
      else if c = CHR 0x5C then
        (case cs of
           [] \<Rightarrow> None
         | e # cs' \<Rightarrow>
             if e = CHR ''u'' then
               (case cs' of
                  h1 # h2 # h3 # h4 # cs'' \<Rightarrow>
                    (case (hex_val h1, hex_val h2, hex_val h3, hex_val h4) of
                       (Some a, Some b, Some c, Some d) \<Rightarrow>
                         if a = 0 \<and> b = 0 then cons_result (char_of (16 * c + d)) (scanstring cs'')
                         else None
                     | _ \<Rightarrow> None)
                | _ \<Rightarrow> None)
             else (case unescape e of
                     None \<Rightarrow> None
                   | Some ch \<Rightarrow> cons_result ch (scanstring cs')))
      else if (of_char c :: nat) < 0x20 then None
      else cons_result c (scanstring cs))"

text \<open>
  The integer part of a number is \<open>-?(0|[1-9][0-9]*)\<close>. Digits after a leading zero are
  a syntax error wherever they stand; a following \<open>.\<close>, \<open>e\<close> or \<open>E\<close> starts a
  fraction or an exponent, or is a syntax error.
\<close>

definition scan_number :: "string \<Rightarrow> (int \<times> string) option" where
  "scan_number s =
     (let neg = (take 1 s = ''-'');
          s1 = (if neg then drop 1 s else s);
          ds = takeWhile is_digit s1;
          rest = dropWhile is_digit s1
      in if ds = [] then None
         else if take 1 ds = ''0'' \<and> 1 < length ds then None
         else if take 1 rest = ''.'' \<or> take 1 rest = ''e'' \<or> take 1 rest = ''E'' then None
         else Some (if neg then - int (nat_of_digits ds) else int (nat_of_digits ds), rest))"

text \<open>\<open>dict(pairs)\<close>: a key that comes again replaces the value and keeps its place.\<close>

definition dict_of_pairs :: "(string \<times> json) list \<Rightarrow> (string \<times> json) list" where
  "dict_of_pairs pairs = foldl (\<lambda>d (k, v). dict_setitem d k v) [] pairs"

fun scan_once :: "nat \<Rightarrow> string \<Rightarrow> (json \<times> string) option"
and JSONArray :: "nat \<Rightarrow> string \<Rightarrow> (json list \<times> string) option"
and JSONObject :: "nat \<Rightarrow> string \<Rightarrow> ((string \<times> json) list \<times> string) option" where
  "scan_once 0 s = None"
| "scan_once (Suc n) s =
     (case s of
        [] \<Rightarrow> None
      | c # cs \<Rightarrow>
          if c = CHR 0x22 then
            (case scanstring cs of None \<Rightarrow> None | Some (str, rest) \<Rightarrow> Some (JStr str, rest))
          else if c = CHR ''{'' then
            (if take 1 (skip_ws cs) = ''}'' then Some (JDict [], drop 1 (skip_ws cs))
             else (case JSONObject n (skip_ws cs) of
                     None \<Rightarrow> None
                   | Some (pairs, rest) \<Rightarrow> Some (JDict (dict_of_pairs pairs), rest)))
          else if c = CHR ''['' then
            (if take 1 (skip_ws cs) = '']'' then Some (JList [], drop 1 (skip_ws cs))
             else (case JSONArray n (skip_ws cs) of
                     None \<Rightarrow> None
                   | Some (values, rest) \<Rightarrow> Some (JList values, rest)))
          else if take 4 s = ''null'' then Some (JNull, drop 4 s)
          else if take 4 s = ''true'' then Some (JBool True, drop 4 s)
          else if take 5 s = ''false'' then Some (JBool False, drop 5 s)
          else (case scan_number s of None \<Rightarrow> None | Some (i, rest) \<Rightarrow> Some (JInt i, rest)))"
| "JSONArray 0 s = None"
| "JSONArray (Suc n) s =
     (case scan_once n s of
        None \<Rightarrow> None
      | Some (v, rest) \<Rightarrow>
          (case skip_ws rest of
             [] \<Rightarrow> None
           | c # rest' \<Rightarrow>
               if c = CHR '']'' then Some ([v], rest')
               else if c = CHR '','' then cons_result v (JSONArray n (skip_ws rest'))
               else None))"
| "JSONObject 0 s = None"
| "JSONObject (Suc n) s =
     (case s of
        [] \<Rightarrow> None
      | q # s1 \<Rightarrow>
          if q \<noteq> CHR 0x22 then None
          else (case scanstring s1 of
                  None \<Rightarrow> None
                | Some (key, r) \<Rightarrow>
                    (case skip_ws r of
                       [] \<Rightarrow> None
                     | c # r' \<Rightarrow>
                         if c \<noteq> CHR '':'' then None
                         else (case scan_once n (skip_ws r') of
                                 None \<Rightarrow> None
                               | Some (v, rest) \<Rightarrow>
                                   (case skip_ws rest of
                                      [] \<Rightarrow> None
                                    | d # rest' \<Rightarrow>
                                        if d = CHR ''}'' then Some ([(key, v)], rest')
                                        else if d = CHR '','' then
                                          cons_result (key, v) (JSONObject n (skip_ws rest'))
                                        else None)))))"

definition json_loads :: "string \<Rightarrow> json option" where
  "json_loads s =
     (case scan_once (length s) (skip_ws s) of
        None \<Rightarrow> None
      | Some (obj, rest) \<Rightarrow> if skip_ws rest = [] then Some obj else None)"


section \<open>Exceptions and the network\<close>

text \<open>
  An exception is known by its class and by \<open>str(e)\<close>. \<open>ValueError\<close> is what the tools
  raise themselves; the other two are what \<open>httpx\<close> and \<open>response.json()\<close> raise.
\<close>

datatype exn = ValueError string | TransportError string | DecodingError string

fun str_exn :: "exn \<Rightarrow> string" where
  "str_exn (ValueError m) = m"
| "str_exn (TransportError m) = m"
| "str_exn (DecodingError m) = m"

datatype http_verb = GET | POST

record request =
  req_verb :: http_verb
  req_url :: string
  req_headers :: "(string \<times> string) list"
  req_params :: "(string \<times> string) list option"
  req_json :: "json option"

text \<open>
  The remote service with the HTTP library in front of it: given the requests issued so
  far and the next one, it raises or answers with a decoded body. The state of the network
  is the list of requests issued.
\<close>

type_synonym net = "request list"
type_synonym remote = "net \<Rightarrow> request \<Rightarrow> exn + json"

definition send :: "remote \<Rightarrow> request \<Rightarrow> net \<Rightarrow> (exn + json) \<times> net" where
  "send remote req log = (remote log req, log @ [req])"

section \<open>SlackClient\<close>

record SlackClient =
  bot_headers :: "(string \<times> string) list"

definition SlackClient_init :: "string \<Rightarrow> SlackClient" where
  "SlackClient_init bot_token =
     \<lparr>bot_headers = [(''Authorization'', ''Bearer '' @ bot_token),
                     (''Content-Type'', ''application/json'')]\<rparr>"

text \<open>The module's globals once start-up has passed.\<close>

record globals =
  bot_token :: string
  team_id :: string
  slack_client :: SlackClient

definition get_channels ::
  "globals \<Rightarrow> SlackClient \<Rightarrow> remote \<Rightarrow> int \<Rightarrow> string option \<Rightarrow> net \<Rightarrow> (exn + json) \<times> net" where
  "get_channels g self remote limit cursor log =
     (let params = [(''types'', ''public_channel''),
                    (''exclude_archived'', ''true''),
                    (''limit'', str_int (min limit 200)),
                    (''team_id'', team_id g)];
          params = (if truthy cursor then dict_setitem params ''cursor'' (the cursor) else params)
      in send remote
           \<lparr>req_verb = GET, req_url = ''https://slack.com/api/conversations.list'',
            req_headers = bot_headers self, req_params = Some params, req_json = None\<rparr> log)"

definition post_message ::
  "SlackClient \<Rightarrow> remote \<Rightarrow> string \<Rightarrow> string \<Rightarrow> net \<Rightarrow> (exn + json) \<times> net" where
  "post_message self remote channel_id text log =
     send remote
       \<lparr>req_verb = POST, req_url = ''https://slack.com/api/chat.postMessage'',
        req_headers = bot_headers self, req_params = None,
        req_json = Some (JDict [(''channel'', JStr channel_id), (''text'', JStr text)])\<rparr> log"

definition post_reply ::
  "SlackClient \<Rightarrow> remote \<Rightarrow> string \<Rightarrow> string \<Rightarrow> string \<Rightarrow> net \<Rightarrow> (exn + json) \<times> net" where
  "post_reply self remote channel_id thread_ts text log =
     send remote
       \<lparr>req_verb = POST, req_url = ''https://slack.com/api/chat.postMessage'',
        req_headers = bot_headers self, req_params = None,
        req_json = Some (JDict [(''channel'', JStr channel_id), (''thread_ts'', JStr thread_ts),
                                (''text'', JStr text)])\<rparr> log"

definition add_reaction ::
  "SlackClient \<Rightarrow> remote \<Rightarrow> string \<Rightarrow> string \<Rightarrow> string \<Rightarrow> net \<Rightarrow> (exn + json) \<times> net" where
  "add_reaction self remote channel_id timestamp reaction log =
     send remote
       \<lparr>req_verb = POST, req_url = ''https://slack.com/api/reactions.add'',
        req_headers = bot_headers self, req_params = None,
        req_json = Some (JDict [(''channel'', JStr channel_id), (''timestamp'', JStr timestamp),
                                (''name'', JStr reaction)])\<rparr> log"

definition get_channel_history ::
  "SlackClient \<Rightarrow> remote \<Rightarrow> string \<Rightarrow> int \<Rightarrow> net \<Rightarrow> (exn + json) \<times> net" where
  "get_channel_history self remote channel_id limit log =
     (let params = [(''channel'', channel_id), (''limit'', str_int limit)]
      in send remote
           \<lparr>req_verb = GET, req_url = ''https://slack.com/api/conversations.history'',
            req_headers = bot_headers self, req_params = Some params, req_json = None\<rparr> log)"

definition get_thread_replies ::
  "SlackClient \<Rightarrow> remote \<Rightarrow> string \<Rightarrow> string \<Rightarrow> net \<Rightarrow> (exn + json) \<times> net" where
  "get_thread_replies self remote channel_id thread_ts log =
     (let params = [(''channel'', channel_id), (''ts'', thread_ts)]
      in send remote
           \<lparr>req_verb = GET, req_url = ''https://slack.com/api/conversations.replies'',
            req_headers = bot_headers self, req_params = Some params, req_json = None\<rparr> log)"

definition get_users ::
  "globals \<Rightarrow> SlackClient \<Rightarrow> remote \<Rightarrow> int \<Rightarrow> string option \<Rightarrow> net \<Rightarrow> (exn + json) \<times> net" where
  "get_users g self remote limit cursor log =
     (let params = [(''limit'', str_int (min limit 200)),
                    (''team_id'', team_id g)];
          params = (if truthy cursor then dict_setitem params ''cursor'' (the cursor) else params)
      in send remote
           \<lparr>req_verb = GET, req_url = ''https://slack.com/api/users.list'',
            req_headers = bot_headers self, req_params = Some params, req_json = None\<rparr> log)"

definition get_user_profile ::
  "SlackClient \<Rightarrow> remote \<Rightarrow> string \<Rightarrow> net \<Rightarrow> (exn + json) \<times> net" where
  "get_user_profile self remote user_id log =
     (let params = [(''user'', user_id), (''include_labels'', ''true'')]
      in send remote
           \<lparr>req_verb = GET, req_url = ''https://slack.com/api/users.profile.get'',
            req_headers = bot_headers self, req_params = Some params, req_json = None\<rparr> log)"

section \<open>Tools\<close>

text \<open>
  Every tool is one \<open>try\<close> block with one handler. \<open>dumps_response\<close> is the block's
  last statement, \<open>return json.dumps(response)\<close>, reached when the client call returned;
  \<open>except_Exception\<close> is the handler, which serialises \<open>{"error": str(e)}\<close>.
\<close>

definition dumps_response :: "(exn + json) \<times> net \<Rightarrow> (exn + string) \<times> net" where
  "dumps_response r =
     (case r of (Inl e, log) \<Rightarrow> (Inl e, log)
              | (Inr response, log) \<Rightarrow> (Inr (json_dumps response), log))"

definition except_Exception :: "(exn + string) \<times> net \<Rightarrow> string \<times> net" where
  "except_Exception r =
     (case r of (Inl e, log) \<Rightarrow> (json_dumps (JDict [(''error'', JStr (str_exn e))]), log)
              | (Inr text, log) \<Rightarrow> (text, log))"

text \<open>
  A required argument is a \<open>string option\<close>: Python does not enforce the annotation
  \<open>str\<close>, and the presence test \<open>not x\<close> turns away \<open>None\<close> as it does the empty
  string. \<open>limit\<close> is an integer and \<open>cursor\<close> an optional string, as annotated.
\<close>

definition slack_list_channels ::
  "globals \<Rightarrow> remote \<Rightarrow> int \<Rightarrow> string option \<Rightarrow> net \<Rightarrow> string \<times> net" where
  "slack_list_channels g remote limit cursor log =
     except_Exception (dumps_response (get_channels g (slack_client g) remote limit cursor log))"

definition slack_post_message ::
  "globals \<Rightarrow> remote \<Rightarrow> string option \<Rightarrow> string option \<Rightarrow> net \<Rightarrow> string \<times> net" where
  "slack_post_message g remote channel_id text log =
     except_Exception
       (if py_not channel_id \<or> py_not text
        then (Inl (ValueError ''Missing required arguments: channel_id and text''), log)
        else dumps_response (post_message (slack_client g) remote (the channel_id) (the text) log))"

definition slack_reply_to_thread ::
  "globals \<Rightarrow> remote \<Rightarrow> string option \<Rightarrow> string option \<Rightarrow> string option \<Rightarrow> net \<Rightarrow> string \<times> net" where
  "slack_reply_to_thread g remote channel_id thread_ts text log =
     except_Exception
       (if py_not channel_id \<or> py_not thread_ts \<or> py_not text
        then (Inl (ValueError ''Missing required arguments: channel_id, thread_ts, and text''), log)
        else dumps_response
               (post_reply (slack_client g) remote (the channel_id) (the thread_ts) (the text) log))"

definition slack_add_reaction ::
  "globals \<Rightarrow> remote \<Rightarrow> string option \<Rightarrow> string option \<Rightarrow> string option \<Rightarrow> net \<Rightarrow> string \<times> net" where
  "slack_add_reaction g remote channel_id timestamp reaction log =
     except_Exception
       (if py_not channel_id \<or> py_not timestamp \<or> py_not reaction
        then (Inl (ValueError ''Missing required arguments: channel_id, timestamp, and reaction''), log)
        else dumps_response
               (add_reaction (slack_client g) remote (the channel_id) (the timestamp) (the reaction) log))"

definition slack_get_channel_history ::
  "globals \<Rightarrow> remote \<Rightarrow> string option \<Rightarrow> int \<Rightarrow> net \<Rightarrow> string \<times> net" where
  "slack_get_channel_history g remote channel_id limit log =
     except_Exception
       (if py_not channel_id
        then (Inl (ValueError ''Missing required argument: channel_id''), log)
        else dumps_response (get_channel_history (slack_client g) remote (the channel_id) limit log))"

definition slack_get_thread_replies ::
  "globals \<Rightarrow> remote \<Rightarrow> string option \<Rightarrow> string option \<Rightarrow> net \<Rightarrow> string \<times> net" where
  "slack_get_thread_replies g remote channel_id thread_ts log =
     except_Exception
       (if py_not channel_id \<or> py_not thread_ts
        then (Inl (ValueError ''Missing required arguments: channel_id and thread_ts''), log)
        else dumps_response
               (get_thread_replies (slack_client g) remote (the channel_id) (the thread_ts) log))"

definition slack_get_users ::
  "globals \<Rightarrow> remote \<Rightarrow> int \<Rightarrow> string option \<Rightarrow> net \<Rightarrow> string \<times> net" where
  "slack_get_users g remote limit cursor log =
     except_Exception (dumps_response (get_users g (slack_client g) remote limit cursor log))"

definition slack_get_user_profile ::
  "globals \<Rightarrow> remote \<Rightarrow> string option \<Rightarrow> net \<Rightarrow> string \<times> net" where
  "slack_get_user_profile g remote user_id log =
     except_Exception
       (if py_not user_id
        then (Inl (ValueError ''Missing required argument: user_id''), log)
        else dumps_response (get_user_profile (slack_client g) remote (the user_id) log))"

section \<open>Tool calls\<close>

text \<open>
  A call names a tool and gives its arguments. For \<open>limit\<close>, \<open>None\<close> means the caller
  left it out and the default of the tool's signature applies (100 for the two listings,
  10 for the history); \<open>cursor\<close> defaults to \<open>None\<close>. The client's methods declare the
  same defaults, which no call in the module relies on: every tool passes all arguments.
\<close>

datatype tool_call =
    ListChannels "int option" "string option"
  | PostMessage "string option" "string option"
  | ReplyToThread "string option" "string option" "string option"
  | AddReaction "string option" "string option" "string option"
  | GetChannelHistory "string option" "int option"
  | GetThreadReplies "string option" "string option"
  | GetUsers "int option" "string option"
  | GetUserProfile "string option"

definition default_arg :: "'a \<Rightarrow> 'a option \<Rightarrow> 'a" where
  "default_arg d x = (case x of None \<Rightarrow> d | Some v \<Rightarrow> v)"

fun call_tool :: "globals \<Rightarrow> remote \<Rightarrow> tool_call \<Rightarrow> net \<Rightarrow> string \<times> net" where
  "call_tool g remote (ListChannels limit cursor) log =
     slack_list_channels g remote (default_arg 100 limit) cursor log"
| "call_tool g remote (PostMessage channel_id text) log =
     slack_post_message g remote channel_id text log"
| "call_tool g remote (ReplyToThread channel_id thread_ts text) log =
     slack_reply_to_thread g remote channel_id thread_ts text log"
| "call_tool g remote (AddReaction channel_id timestamp reaction) log =
     slack_add_reaction g remote channel_id timestamp reaction log"
| "call_tool g remote (GetChannelHistory channel_id limit) log =
     slack_get_channel_history g remote channel_id (default_arg 10 limit) log"
| "call_tool g remote (GetThreadReplies channel_id thread_ts) log =
     slack_get_thread_replies g remote channel_id thread_ts log"
| "call_tool g remote (GetUsers limit cursor) log =
     slack_get_users g remote (default_arg 100 limit) cursor log"
| "call_tool g remote (GetUserProfile user_id) log =
     slack_get_user_profile g remote user_id log"


section \<open>The process\<close>

text \<open>
  Start-up reads the two environment variables (\<open>os.environ.get\<close> answers \<open>None\<close> for
  an unset one), and either prints the diagnostic and leaves with status 1 or prints the
  banner and builds the client. Both lines go to the error stream.
\<close>

definition startup :: "(string \<rightharpoonup> string) \<Rightarrow> string list \<times> (int + globals)" where
  "startup environ =
     (let bot_token = environ ''SLACK_BOT_TOKEN'';
          team_id = environ ''SLACK_TEAM_ID''
      in if py_not bot_token \<or> py_not team_id
         then ([''Please set SLACK_BOT_TOKEN and SLACK_TEAM_ID environment variables''], Inl 1)
         else ([''Starting Slack MCP Server...''],
               Inr \<lparr>bot_token = the bot_token, team_id = the team_id,
                    slack_client = SlackClient_init (the bot_token)\<rparr>))"

text \<open>
  \<open>mcp.run\<close> serves the calls that arrive until the channel closes; here they are served
  in their order of arrival. The channel closes in good order, and the process ends with
  status 0, or the transport raises, and the process prints the fatal error to the error
  stream and leaves with status 1.
\<close>

fun run :: "globals \<Rightarrow> remote \<Rightarrow> tool_call list \<Rightarrow> net \<Rightarrow> string list \<times> net" where
  "run g remote [] log = ([], log)"
| "run g remote (tc # tcs) log =
     (case call_tool g remote tc log of
        (text, log') \<Rightarrow> (case run g remote tcs log' of (texts, log'') \<Rightarrow> (text # texts, log'')))"

record outcome =
  stderr :: "string list"
  exit_status :: int
  results :: "string list"
  sent :: "request list"

definition main ::
  "(string \<rightharpoonup> string) \<Rightarrow> remote \<Rightarrow> tool_call list \<Rightarrow> exn option \<Rightarrow> outcome" where
  "main environ remote calls closing =
     (case startup environ of
        (err, Inl status) \<Rightarrow> \<lparr>stderr = err, exit_status = status, results = [], sent = []\<rparr>
      | (err, Inr g) \<Rightarrow>
          (case run g remote calls [] of
             (texts, log) \<Rightarrow>
               (case closing of
                  None \<Rightarrow> \<lparr>stderr = err, exit_status = 0, results = texts, sent = log\<rparr>
                | Some e \<Rightarrow> \<lparr>stderr = err @ [''Fatal error: '' @ str_exn e], exit_status = 1,
                             results = texts, sent = log\<rparr>)))"

section \<open>Observations and test doubles\<close>

text \<open>The value of a query parameter of a request, if the request has it.\<close>

definition param :: "request \<Rightarrow> string \<Rightarrow> string option" where
  "param req k = (case req_params req of None \<Rightarrow> None | Some ps \<Rightarrow> map_of ps k)"

text \<open>
  A remote that answers every request with the same body, one that fails every request
  with the same exception, and the globals of a process started with a token and a
  workspace identifier.
\<close>

definition stub_remote :: "json \<Rightarrow> remote" where
  "stub_remote response = (\<lambda>log req. Inr response)"


definition stub_globals :: globals where
  "stub_globals = \<lparr>bot_token = ''xoxb-test'', team_id = ''T999'',
                    slack_client = SlackClient_init ''xoxb-test''\<rparr>"





section \<open>Properties\<close>

subsection \<open>Evaluation of the literals\<close>

lemma str_int_200: "str_int 200 = ''200''"
  by code_simp

lemma str_int_100: "str_int 100 = ''100''"
  by code_simp

lemma str_int_10: "str_int 10 = ''10''"
  by code_simp





lemma dumps_ok_ts:
  \<open>json_dumps (JDict [(''ok'', JBool True), (''ts'', JStr ''100.1'')]) = ''{"ok": true, "ts": "100.1"}''\<close>
  by code_simp

lemma loads_ok_ts:
  \<open>json_loads ''{"ok": true, "ts": "100.1"}'' = Some (JDict [(''ok'', JBool True), (''ts'', JStr ''100.1'')])\<close>
  by code_simp


subsection \<open>The shape of a tool\<close>

lemmas client_defs = get_channels_def post_message_def post_reply_def add_reaction_def
  get_channel_history_def get_thread_replies_def get_users_def get_user_profile_def

lemmas tool_defs = slack_list_channels_def slack_post_message_def slack_reply_to_thread_def
  slack_add_reaction_def slack_get_channel_history_def slack_get_thread_replies_def
  slack_get_users_def slack_get_user_profile_def

lemma try_send:
  "except_Exception (dumps_response (send remote req log)) =
     (case remote log req of
        Inl e \<Rightarrow> json_dumps (JDict [(''error'', JStr (str_exn e))])
      | Inr response \<Rightarrow> json_dumps response,
      log @ [req])"
  by (simp add: except_Exception_def dumps_response_def send_def split: sum.splits)

lemma try_raise:
  "except_Exception (Inl e, log) = (json_dumps (JDict [(''error'', JStr (str_exn e))]), log)"
  by (simp add: except_Exception_def)

lemmas call_simps = tool_defs client_defs try_send try_raise Let_def default_arg_def



subsection \<open>Decoding what was encoded\<close>















































subsection \<open>The requests of a run\<close>



subsection \<open>Successful responses\<close>



text \<open>
  C7. \<open>post_message("C123", "hello")\<close> against a remote that answers every request with
  the body \<open>{"ok": true, "ts": "100.1"}\<close> returns exactly the text
  \<open>{"ok": true, "ts": "100.1"}\<close>, after one request to \<open>chat.postMessage\<close> with the
  channel and the text.
\<close>

theorem post_message_returns_body_unchanged:
  assumes \<open>json_loads ''{"ok": true, "ts": "100.1"}'' = Some response\<close>
    and "\<And>req. remote log req = Inr response"
  shows \<open>\<exists>req. call_tool g remote (PostMessage (Some ''C123'') (Some ''hello'')) log =
           (''{"ok": true, "ts": "100.1"}'', log @ [req])
         \<and> req_url req = ''https://slack.com/api/chat.postMessage''
         \<and> req_json req = Some (JDict [(''channel'', JStr ''C123''), (''text'', JStr ''hello'')])\<close>
proof -
  from assms(1) have "response = JDict [(''ok'', JBool True), (''ts'', JStr ''100.1'')]"
    by (simp add: loads_ok_ts)
  with assms(2) show ?thesis
    by (simp add: call_simps py_not_def dumps_ok_ts)
qed

theorem post_message_returns_body_unchanged_witness:
  \<open>fst (call_tool stub_globals (stub_remote (JDict [(''ok'', JBool True), (''ts'', JStr ''100.1'')]))
          (PostMessage (Some ''C123'') (Some ''hello'')) []) = ''{"ok": true, "ts": "100.1"}''\<close>
  using post_message_returns_body_unchanged
          [OF loads_ok_ts, of "stub_remote (JDict [(''ok'', JBool True), (''ts'', JStr ''100.1'')])"
              "[]" stub_globals]
  by (auto simp add: stub_remote_def)

subsection \<open>Validation of the required arguments\<close>



subsection \<open>Failures of the client operation\<close>



subsection \<open>Limits and cursors\<close>

text \<open>
  C4. The request of \<open>list_channels\<close> and of \<open>get_users\<close> carries \<open>limit=200\<close> for every
  limit above 200 (and the limit itself up to 200). When the caller gives no limit, the
  request carries \<open>limit=100\<close> for the two listings and \<open>limit=10\<close> for
  \<open>get_channel_history\<close>.
\<close>

theorem limit_cap_and_defaults:
  "(\<exists>req. snd (call_tool g remote (ListChannels (Some limit) cursor) log) = log @ [req]
        \<and> param req ''limit'' = Some (if 200 < limit then ''200'' else str_int limit))
 \<and> (\<exists>req. snd (call_tool g remote (GetUsers (Some limit) cursor) log) = log @ [req]
        \<and> param req ''limit'' = Some (if 200 < limit then ''200'' else str_int limit))
 \<and> (\<exists>req. snd (call_tool g remote (ListChannels None cursor) log) = log @ [req]
        \<and> param req ''limit'' = Some ''100'')
 \<and> (\<exists>req. snd (call_tool g remote (GetUsers None cursor) log) = log @ [req]
        \<and> param req ''limit'' = Some ''100'')
 \<and> (\<not> py_not channel_id \<longrightarrow>
      (\<exists>req. snd (call_tool g remote (GetChannelHistory channel_id None) log) = log @ [req]
        \<and> param req ''limit'' = Some ''10''))"
  by (auto simp add: call_simps param_def str_int_200 str_int_100 str_int_10 min_def)

theorem limit_cap_and_defaults_witness:
  "(\<exists>req. snd (call_tool stub_globals (stub_remote JNull) (ListChannels (Some 1000) None) []) = [req]
        \<and> param req ''limit'' = Some ''200'')
 \<and> (\<exists>req. snd (call_tool stub_globals (stub_remote JNull) (GetChannelHistory (Some ''C123'') None) [])
              = [req]
        \<and> param req ''limit'' = Some ''10'')"
  using limit_cap_and_defaults [of stub_globals "stub_remote JNull" 1000 None "[]" "Some ''C123''"]
  by (simp add: py_not_def)



text \<open>
  C5. The request of \<open>list_channels\<close> and of \<open>get_users\<close> has the parameter \<open>cursor\<close>
  with the value passed when a cursor is passed, and has no parameter \<open>cursor\<close> at all
  when it is left out (\<open>None\<close>); an empty cursor counts as left out, so an empty value is
  never sent.
\<close>

theorem cursor_passed_or_omitted:
  "(\<exists>req. snd (call_tool g remote (ListChannels limit cursor) log) = log @ [req]
        \<and> param req ''cursor'' = (if truthy cursor then cursor else None))
 \<and> (\<exists>req. snd (call_tool g remote (GetUsers limit cursor) log) = log @ [req]
        \<and> param req ''cursor'' = (if truthy cursor then cursor else None))"
  by (auto simp add: call_simps param_def truthy_def split: option.splits)

theorem cursor_passed_or_omitted_witness:
  "(\<exists>req. snd (call_tool stub_globals (stub_remote JNull) (ListChannels None (Some ''dXNlcjpVMDYx'')) [])
              = [req]
        \<and> param req ''cursor'' = Some ''dXNlcjpVMDYx'')
 \<and> (\<exists>req. snd (call_tool stub_globals (stub_remote JNull) (GetUsers None None) []) = [req]
        \<and> param req ''cursor'' = None)"
  using cursor_passed_or_omitted [of stub_globals "stub_remote JNull" None "Some ''dXNlcjpVMDYx''" "[]"]
        cursor_passed_or_omitted [of stub_globals "stub_remote JNull" None None "[]"]
  by (simp add: truthy_def)



subsection \<open>The credential\<close>




subsection \<open>Start-up\<close>

text \<open>
  C8. If the bot credential or the workspace identifier is absent from the environment
  (or empty), the process prints the diagnostic to the error stream and leaves with
  status 1: no tool call is served and no request is issued.
\<close>

theorem startup_without_configuration_exits:
  "py_not (environ ''SLACK_BOT_TOKEN'') \<or> py_not (environ ''SLACK_TEAM_ID'') \<Longrightarrow>
     main environ remote calls closing =
       \<lparr>stderr = [''Please set SLACK_BOT_TOKEN and SLACK_TEAM_ID environment variables''],
        exit_status = 1, results = [], sent = []\<rparr>"
  by (auto simp add: main_def startup_def Let_def)

theorem startup_without_configuration_exits_witness:
  "[''SLACK_BOT_TOKEN'' \<mapsto> ''xoxb-test''] ''SLACK_TEAM_ID'' = None
   \<and> exit_status (main [''SLACK_BOT_TOKEN'' \<mapsto> ''xoxb-test''] (stub_remote JNull)
                    [PostMessage (Some ''C123'') (Some ''hello'')] None) = 1
   \<and> results (main [''SLACK_BOT_TOKEN'' \<mapsto> ''xoxb-test''] (stub_remote JNull)
                    [PostMessage (Some ''C123'') (Some ''hello'')] None) = []
   \<and> sent (main [''SLACK_BOT_TOKEN'' \<mapsto> ''xoxb-test''] (stub_remote JNull)
                    [PostMessage (Some ''C123'') (Some ''hello'')] None) = []"
  using startup_without_configuration_exits
          [of "[''SLACK_BOT_TOKEN'' \<mapsto> ''xoxb-test'']" "stub_remote JNull"
              "[PostMessage (Some ''C123'') (Some ''hello'')]" None]
  by (simp add: py_not_def)

end
